theory Spec2Isabelle
  imports Complex_Main "HOL-Library.Word" "HOL-Library.Log_Nat"
begin

unbundle bit_operations_syntax

section \<open>Python values and exceptions\<close>

text \<open>
  The model follows \<^verbatim>\<open>src/msl/equipment/connection_message_based.py\<close> under
  Python 3. The setters of \<^verbatim>\<open>ConnectionMessageBased\<close> are dynamically typed, so
  their arguments are values of \<open>pyval\<close>: \<^verbatim>\<open>None\<close>, a \<^verbatim>\<open>bool\<close>, an
  (unbounded) \<^verbatim>\<open>int\<close> or a \<^verbatim>\<open>float\<close>. A Python float is an IEEE 754 binary64
  value, kept as its 64-bit pattern (sign, 11 exponent bits, 52 fraction bits). Arguments
  of other classes (a \<^verbatim>\<open>str\<close>, which \<^verbatim>\<open>float\<close> would parse, or an object with its
  own \<^verbatim>\<open>__float__\<close>) are outside the model.

  Exceptions are values of \<open>error\<close>; only the exception class is kept, the formatted
  message is not modelled.
\<close>

type_synonym float64 = "64 word"

datatype pyval = PNone | PBool bool | PInt int | PFloat float64

datatype error =
    ValueError | TypeError | OverflowError | LookupError | UnicodeError
  | NotImplementedError | MSLTimeoutError | IOError

subsection \<open>Comparisons of a float with zero\<close>

text \<open>
  \<^verbatim>\<open>x == 0.0\<close> holds for both signed zeros (all bits clear but perhaps the sign
  bit); \<^verbatim>\<open>x < 0\<close> and \<^verbatim>\<open>x > 0.0\<close> are false for a NaN (exponent bits all set,
  fraction not zero) and for both zeros, and true up to the infinity of that sign. The
  bit patterns of one sign are ordered as their values are.
\<close>

definition float_eq_zero :: "float64 \<Rightarrow> bool" where
  "float_eq_zero x \<longleftrightarrow> x = 0 \<or> x = 0x8000000000000000"

definition float_lt_zero :: "float64 \<Rightarrow> bool" where
  "float_lt_zero x \<longleftrightarrow> 0x8000000000000000 < x \<and> x \<le> 0xFFF0000000000000"

definition float_gt_zero :: "float64 \<Rightarrow> bool" where
  "float_gt_zero x \<longleftrightarrow> 0 < x \<and> x \<le> 0x7FF0000000000000"

subsection \<open>The value of a float\<close>

text \<open>
  The real number a finite binary64 pattern stands for: the sign bit, the biased exponent
  \<open>e\<close> and the fraction \<open>f\<close> give \<open>(2 ^ 52 + f) * 2 ^ (e - 1075)\<close>, or
  \<open>f * 2 ^ (- 1074)\<close> for a subnormal (\<open>e = 0\<close>). An infinity or a NaN (\<open>e = 2047\<close>)
  has no value.
\<close>

definition magnitude :: "int \<Rightarrow> int \<Rightarrow> real" where
  "magnitude e f =
     (if e = 0 then real_of_int f / 2 ^ 1074
      else if 1075 \<le> e then real_of_int ((2 ^ 52 + f) * 2 ^ nat (e - 1075))
      else real_of_int (2 ^ 52 + f) / 2 ^ nat (1075 - e))"

definition float_value :: "float64 \<Rightarrow> real option" where
  "float_value x =
     (let u = uint x;
          e = (u div 2 ^ 52) mod 2 ^ 11;
          f = u mod 2 ^ 52
      in if e = 2047 then None
         else Some ((if u div 2 ^ 63 = 1 then - 1 else 1) * magnitude e f))"

subsection \<open>The builtin \<^verbatim>\<open>float(value)\<close>\<close>

text \<open>
  \<^verbatim>\<open>float(n)\<close> of an int rounds to the nearest binary64 value, ties to even, and
  raises \<^verbatim>\<open>OverflowError\<close> when the result would not be finite.
  \<open>significand_exponent m\<close> rounds a positive \<open>m\<close> to a 53-bit significand \<open>q\<close>
  and the exponent \<open>e\<close> of its leading bit, so that the result is \<open>q * 2 ^ e / 2 ^ 52\<close>.
\<close>

definition significand_exponent :: "int \<Rightarrow> int \<times> nat" where
  "significand_exponent m =
     (let k = nat (bitlen m)
      in if k \<le> 53 then (m * 2 ^ (53 - k), k - 1)
         else
           let sh = k - 53;
               q0 = m div 2 ^ sh;
               r = m mod 2 ^ sh;
               half = 2 ^ (sh - 1);
               q1 = (if half < r \<or> (r = half \<and> odd q0) then q0 + 1 else q0)
           in if q1 = 2 ^ 53 then (2 ^ 52, k) else (q1, k - 1))"

definition float_of_pyint :: "int \<Rightarrow> error + float64" where
  "float_of_pyint n =
     (if n = 0 then Inr 0
      else
        let (q, e) = significand_exponent \<bar>n\<bar>
        in if 1023 < e then Inl OverflowError
           else Inr (word_of_int
                  ((if n < 0 then 2 ^ 63 else 0) + (int e + 1023) * 2 ^ 52 + (q - 2 ^ 52))))"

text \<open>
  \<^verbatim>\<open>float(None)\<close> raises \<^verbatim>\<open>TypeError\<close>, \<^verbatim>\<open>float(True)\<close> is \<^verbatim>\<open>1.0\<close> and a
  float is returned as it is.
\<close>

definition py_float :: "pyval \<Rightarrow> error + float64" where
  "py_float v =
     (case v of
        PNone \<Rightarrow> Inl TypeError
      | PBool b \<Rightarrow> Inr (if b then 0x3FF0000000000000 else 0)
      | PInt n \<Rightarrow> float_of_pyint n
      | PFloat x \<Rightarrow> Inr x)"

subsection \<open>Integers\<close>

text \<open>
  \<open>int_value v\<close> is \<open>Some n\<close> exactly when \<^verbatim>\<open>isinstance(v, int)\<close> holds, and then
  \<open>n\<close> is \<^verbatim>\<open>int(v)\<close>. In Python \<^verbatim>\<open>bool\<close> is a subclass of \<^verbatim>\<open>int\<close>, with
  \<^verbatim>\<open>True == 1\<close> and \<^verbatim>\<open>False == 0\<close>.
\<close>

fun int_value :: "pyval \<Rightarrow> int option" where
  "int_value (PInt n) = Some n"
| "int_value (PBool b) = Some (if b then 1 else 0)"
| "int_value PNone = None"
| "int_value (PFloat x) = None"

definition isinstance_int :: "pyval \<Rightarrow> bool" where
  "isinstance_int v \<longleftrightarrow> int_value v \<noteq> None"

section \<open>The message-based connection\<close>

text \<open>
  The attributes that \<^verbatim>\<open>ConnectionMessageBased.__init__\<close> adds to the object. The
  attributes set by the base class \<^verbatim>\<open>Connection.__init__\<close> are not touched by any
  method below and are left out.
\<close>

record connection_message_based =
  read_termination :: "string option"
  write_termination :: "string option"
  encoding :: string
  max_read_size :: int
  timeout :: "float64 option"

definition CR :: string where
  "CR = [CHR 0x0D]"

definition LF :: string where
  "LF = [CHR 0x0A]"

definition init :: connection_message_based where
  "init = \<lparr> read_termination = Some LF,
            write_termination = Some (CR @ LF),
            encoding = ''utf-8'',
            max_read_size = 2 ^ 16,
            timeout = None \<rparr>"

subsection \<open>The \<^verbatim>\<open>encoding\<close> setter\<close>

text \<open>
  \<^verbatim>\<open>_ = 'test encoding'.encode(encoding).decode(encoding)\<close> and then
  \<^verbatim>\<open>self._encoding = encoding\<close>. The codec registry belongs to the interpreter:
  \<open>str_encode text name\<close> is \<^verbatim>\<open>text.encode(name)\<close> and \<open>bytes_decode bs name\<close>
  is \<^verbatim>\<open>bs.decode(name)\<close>, both parameters of the model. An unknown codec name
  raises \<^verbatim>\<open>LookupError\<close>, a codec that cannot convert the data raises a
  \<^verbatim>\<open>UnicodeError\<close>; whatever is raised leaves the method before the assignment.
\<close>

type_synonym str_encode = "string \<Rightarrow> string \<Rightarrow> error + 8 word list"
type_synonym bytes_decode = "8 word list \<Rightarrow> string \<Rightarrow> error + string"

definition probe :: string where
  "probe = ''test encoding''"

definition round_trip :: "str_encode \<Rightarrow> bytes_decode \<Rightarrow> string \<Rightarrow> error + string" where
  "round_trip enc dec name =
     (case enc probe name of
        Inl e \<Rightarrow> Inl e
      | Inr bs \<Rightarrow> dec bs name)"

definition encoding_setter ::
  "str_encode \<Rightarrow> bytes_decode \<Rightarrow> string \<Rightarrow> connection_message_based
     \<Rightarrow> (error + unit) \<times> connection_message_based" where
  "encoding_setter enc dec name self =
     (case round_trip enc dec name of
        Inl e \<Rightarrow> (Inl e, self)
      | Inr _ \<Rightarrow> (Inr (), self\<lparr>encoding := name\<rparr>))"

definition round_trips :: "str_encode \<Rightarrow> bytes_decode \<Rightarrow> string \<Rightarrow> bool" where
  "round_trips enc dec name \<longleftrightarrow> (case round_trip enc dec name of Inl e \<Rightarrow> False | Inr _ \<Rightarrow> True)"

subsection \<open>The termination setters\<close>

text \<open>
  \<^verbatim>\<open>self._read_termination = None if termination is None else str(termination)\<close>,
  and the same for \<^verbatim>\<open>write_termination\<close>. The argument is \<^verbatim>\<open>None\<close> or a
  \<^verbatim>\<open>str\<close>, and \<^verbatim>\<open>str\<close> of a string is the string.
\<close>

definition read_termination_setter ::
  "string option \<Rightarrow> connection_message_based \<Rightarrow> (error + unit) \<times> connection_message_based" where
  "read_termination_setter termination self =
     (Inr (), self\<lparr>read_termination :=
        (case termination of None \<Rightarrow> None | Some t \<Rightarrow> Some t)\<rparr>)"

definition write_termination_setter ::
  "string option \<Rightarrow> connection_message_based \<Rightarrow> (error + unit) \<times> connection_message_based" where
  "write_termination_setter termination self =
     (Inr (), self\<lparr>write_termination :=
        (case termination of None \<Rightarrow> None | Some t \<Rightarrow> Some t)\<rparr>)"

subsection \<open>The \<^verbatim>\<open>max_read_size\<close> setter\<close>

text \<open>
  \<^verbatim>\<open>if not isinstance(size, int) or size < 1: raise ValueError(...)\<close> and then
  \<^verbatim>\<open>self._max_read_size = int(size)\<close> (\<open>sz\<close> below). The \<^verbatim>\<open>or\<close> short-circuits, so
  \<^verbatim>\<open>size < 1\<close> is only evaluated on an int instance.
\<close>

definition max_read_size_setter ::
  "pyval \<Rightarrow> connection_message_based \<Rightarrow> (error + unit) \<times> connection_message_based" where
  "max_read_size_setter sz self =
     (case int_value sz of
        None \<Rightarrow> (Inl ValueError, self)
      | Some n \<Rightarrow>
          if n < 1 then (Inl ValueError, self)
          else (Inr (), self\<lparr>max_read_size := n\<rparr>))"

subsection \<open>\<^verbatim>\<open>_set_timeout_value\<close>\<close>

text \<open>
  The method assigns \<^verbatim>\<open>self._timeout = float(value)\<close> first and compares afterwards:
  a zero is replaced by \<^verbatim>\<open>None\<close>, a negative value raises \<^verbatim>\<open>ValueError\<close> with
  the assignment already made. When \<^verbatim>\<open>value\<close> is \<^verbatim>\<open>None\<close> the body of the
  \<^verbatim>\<open>if\<close> is skipped and the method returns. An exception of \<^verbatim>\<open>float(value)\<close>
  itself is raised before the assignment.
\<close>

definition set_timeout_value ::
  "pyval \<Rightarrow> connection_message_based \<Rightarrow> (error + unit) \<times> connection_message_based" where
  "set_timeout_value v self =
     (if v \<noteq> PNone then
        (case py_float v of
           Inl e \<Rightarrow> (Inl e, self)
         | Inr x \<Rightarrow>
             let self1 = self\<lparr>timeout := Some x\<rparr>
             in if float_eq_zero x then (Inr (), self1\<lparr>timeout := None\<rparr>)
                else if float_lt_zero x then (Inl ValueError, self1)
                else (Inr (), self1))
      else (Inr (), self))"

subsection \<open>Sequences of setter calls\<close>

text \<open>
  A caller may catch the exception of a setter and go on using the object, so a run of
  calls continues from the state the failed call left.
\<close>

datatype setter_call =
    SetEncoding string
  | SetReadTermination "string option"
  | SetWriteTermination "string option"
  | SetMaxReadSize pyval
  | SetTimeoutValue pyval

fun call ::
  "str_encode \<Rightarrow> bytes_decode \<Rightarrow> setter_call \<Rightarrow> connection_message_based
     \<Rightarrow> (error + unit) \<times> connection_message_based" where
  "call enc dec (SetEncoding name) self = encoding_setter enc dec name self"
| "call enc dec (SetReadTermination t) self = read_termination_setter t self"
| "call enc dec (SetWriteTermination t) self = write_termination_setter t self"
| "call enc dec (SetMaxReadSize v) self = max_read_size_setter v self"
| "call enc dec (SetTimeoutValue v) self = set_timeout_value v self"

fun calls ::
  "str_encode \<Rightarrow> bytes_decode \<Rightarrow> setter_call list \<Rightarrow> connection_message_based
     \<Rightarrow> connection_message_based" where
  "calls enc dec [] self = self"
| "calls enc dec (c # cs) self = calls enc dec cs (snd (call enc dec c self))"

subsection \<open>\<^verbatim>\<open>read\<close>, \<^verbatim>\<open>write\<close> and \<^verbatim>\<open>query\<close>\<close>

text \<open>
  \<^verbatim>\<open>read\<close> and \<^verbatim>\<open>write\<close> of the base class raise \<^verbatim>\<open>NotImplementedError\<close>;
  a subclass overrides them. \<^verbatim>\<open>query\<close> calls whatever the object's class provides,
  so the two methods are parameters of its model. They act on the state \<open>'w\<close> of the
  whole program (the object, the transport and the device), as does
  \<^verbatim>\<open>time.sleep\<close>; each returns its result or exception together with the state it
  leaves.
\<close>

definition write_base :: "string \<Rightarrow> 'w \<Rightarrow> (error + 'n) \<times> 'w" where
  "write_base message w = (Inl NotImplementedError, w)"

definition read_base :: "pyval \<Rightarrow> 'w \<Rightarrow> (error + 'r) \<times> 'w" where
  "read_base sz w = (Inl NotImplementedError, w)"

text \<open>
  \<^verbatim>\<open>delay > 0.0\<close>: an int is compared by value, a bool as 0 or 1, a float by the IEEE
  rule; \<^verbatim>\<open>None\<close> is not comparable with a float (\<^verbatim>\<open>TypeError\<close>).
\<close>

fun py_gt_zero :: "pyval \<Rightarrow> error + bool" where
  "py_gt_zero (PFloat x) = Inr (float_gt_zero x)"
| "py_gt_zero (PInt n) = Inr (0 < n)"
| "py_gt_zero (PBool b) = Inr b"
| "py_gt_zero PNone = Inl TypeError"

text \<open>
  The number of seconds a delay stands for, as \<^verbatim>\<open>time.sleep\<close> reads it: the value
  of an int or a bool, the value of a finite float.
\<close>

fun seconds :: "pyval \<Rightarrow> real option" where
  "seconds (PFloat x) = float_value x"
| "seconds (PInt n) = Some (real_of_int n)"
| "seconds (PBool b) = Some (if b then 1 else 0)"
| "seconds PNone = None"

text \<open>The statement \<^verbatim>\<open>if delay > 0.0: time.sleep(delay)\<close>.\<close>

definition delay_step ::
  "(pyval \<Rightarrow> 'w \<Rightarrow> (error + unit) \<times> 'w) \<Rightarrow> pyval \<Rightarrow> 'w \<Rightarrow> (error + unit) \<times> 'w" where
  "delay_step sleep delay w =
     (case py_gt_zero delay of
        Inl e \<Rightarrow> (Inl e, w)
      | Inr b \<Rightarrow> if b then sleep delay w else (Inr (), w))"

definition query ::
  "(string \<Rightarrow> 'w \<Rightarrow> (error + 'n) \<times> 'w) \<Rightarrow> (pyval \<Rightarrow> 'w \<Rightarrow> (error + 'r) \<times> 'w)
     \<Rightarrow> (pyval \<Rightarrow> 'w \<Rightarrow> (error + unit) \<times> 'w)
     \<Rightarrow> string \<Rightarrow> pyval \<Rightarrow> pyval \<Rightarrow> 'w \<Rightarrow> (error + 'r) \<times> 'w" where
  "query write read sleep message delay sz w =
     (case write message w of
        (Inl e, w1) \<Rightarrow> (Inl e, w1)
      | (Inr _, w1) \<Rightarrow>
          (case delay_step sleep delay w1 of
             (Inl e, w2) \<Rightarrow> (Inl e, w2)
           | (Inr _, w2) \<Rightarrow> read sz w2))"

text \<open>
  The specification's reading of a query without delay: \<^verbatim>\<open>write(message)\<close>
  immediately followed by \<^verbatim>\<open>read(size)\<close>, the second not reached when the first
  raises.
\<close>

definition write_then_read ::
  "(string \<Rightarrow> 'w \<Rightarrow> (error + 'n) \<times> 'w) \<Rightarrow> (pyval \<Rightarrow> 'w \<Rightarrow> (error + 'r) \<times> 'w)
     \<Rightarrow> string \<Rightarrow> pyval \<Rightarrow> 'w \<Rightarrow> (error + 'r) \<times> 'w" where
  "write_then_read write read message sz w =
     (case write message w of
        (Inl e, w1) \<Rightarrow> (Inl e, w1)
      | (Inr _, w1) \<Rightarrow> read sz w1)"

section \<open>Example collaborators\<close>

text \<open>
  Concrete instances of the parameters, for evaluating the model. The example codec
  registry knows the names \<^verbatim>\<open>ascii\<close> and \<^verbatim>\<open>utf-8\<close> (no aliases) and raises
  \<^verbatim>\<open>LookupError\<close> for any other name. A \<open>string\<close> holds code points below 256, so
  its UTF-8 form has one byte for a code point below 128 and two bytes, the first
  \<open>0xC2\<close> or \<open>0xC3\<close>, otherwise; the example decoder reports every other byte
  sequence as a \<^verbatim>\<open>UnicodeError\<close>.
\<close>

definition utf8_encode_char :: "char \<Rightarrow> 8 word list" where
  "utf8_encode_char c =
     (let n = (of_char c :: nat)
      in if n < 128 then [word_of_nat n]
         else [word_of_nat (192 + n div 64), word_of_nat (128 + n mod 64)])"

fun utf8_decode :: "8 word list \<Rightarrow> error + string" where
  "utf8_decode [] = Inr []"
| "utf8_decode [b] = (if b < 0x80 then Inr [char_of (unat b)] else Inl UnicodeError)"
| "utf8_decode (b # b2 # bs) =
     (if b < 0x80 then
        (case utf8_decode (b2 # bs) of
           Inl e \<Rightarrow> Inl e
         | Inr t \<Rightarrow> Inr (char_of (unat b) # t))
      else if (b = 0xC2 \<or> b = 0xC3) \<and> 0x80 \<le> b2 \<and> b2 \<le> 0xBF then
        (case utf8_decode bs of
           Inl e \<Rightarrow> Inl e
         | Inr t \<Rightarrow> Inr (char_of ((unat b - 192) * 64 + (unat b2 - 128)) # t))
      else Inl UnicodeError)"

definition example_encode :: str_encode where
  "example_encode text name =
     (if name = ''utf-8'' then Inr (concat (map utf8_encode_char text))
      else if name = ''ascii'' then
        (if list_all (\<lambda>c. (of_char c :: nat) < 128) text
         then Inr (map (\<lambda>c. word_of_nat (of_char c)) text)
         else Inl UnicodeError)
      else Inl LookupError)"

definition example_decode :: bytes_decode where
  "example_decode bs name =
     (if name = ''utf-8'' then utf8_decode bs
      else if name = ''ascii'' then
        (if list_all (\<lambda>b. b < 0x80) bs
         then Inr (map (\<lambda>b. char_of (unat b)) bs)
         else Inl UnicodeError)
      else Inl LookupError)"

text \<open>A decoder that rejects every input, for a codec that encodes but cannot decode.\<close>

definition rejecting_decode :: bytes_decode where
  "rejecting_decode bs name = Inl UnicodeError"

text \<open>
  An example transport whose state is the log of the calls made so far. \<open>example_write\<close>
  and \<open>example_read\<close> succeed or fail as their first argument says.
\<close>

datatype event = WriteCalled string | SleepCalled pyval | ReadCalled pyval

definition example_write :: "bool \<Rightarrow> string \<Rightarrow> event list \<Rightarrow> (error + nat) \<times> event list" where
  "example_write ok message w =
     (if ok then Inr (length message) else Inl IOError, w @ [WriteCalled message])"

definition example_sleep :: "pyval \<Rightarrow> event list \<Rightarrow> (error + unit) \<times> event list" where
  "example_sleep delay w = (Inr (), w @ [SleepCalled delay])"

definition example_read :: "bool \<Rightarrow> pyval \<Rightarrow> event list \<Rightarrow> (error + string) \<times> event list" where
  "example_read ok sz w =
     (if ok then Inr ''MODEL-42'' else Inl MSLTimeoutError, w @ [ReadCalled sz])"

text \<open>
  A \<^verbatim>\<open>time.sleep\<close> that raises (as it does for a delay too large for the platform's
  timer), and a clock for the example transport: the seconds slept so far, read from
  the log. Time that passes inside \<^verbatim>\<open>write\<close> and \<^verbatim>\<open>read\<close> is not counted, so the
  clock never runs ahead of the real one.
\<close>

definition overflowing_sleep :: "pyval \<Rightarrow> event list \<Rightarrow> (error + unit) \<times> event list" where
  "overflowing_sleep delay w = (Inl OverflowError, w @ [SleepCalled delay])"

fun elapsed :: "event list \<Rightarrow> real" where
  "elapsed [] = 0"
| "elapsed (SleepCalled delay # w) =
     (case seconds delay of None \<Rightarrow> 0 | Some d \<Rightarrow> d) + elapsed w"
| "elapsed (WriteCalled message # w) = elapsed w"
| "elapsed (ReadCalled sz # w) = elapsed w"

section \<open>Auxiliary facts\<close>

subsection \<open>Integer division by a positive number\<close>

lemma div_lower: "(c::int) * b \<le> m \<Longrightarrow> 0 < b \<Longrightarrow> c \<le> m div b"
proof -
  assume a: "c * b \<le> m" and b: "0 < b"
  have "(c * b) div b \<le> m div b" using a b by (rule zdiv_mono1)
  then show ?thesis using b by simp
qed

lemma div_upper: "(m::int) < c * b \<Longrightarrow> 0 < b \<Longrightarrow> m div b < c"
proof -
  assume a: "m < c * b" and b: "0 < b"
  have "m div b * b + m mod b = m" by simp
  moreover have "0 \<le> m mod b" using b by simp
  ultimately have "m div b * b < c * b" using a by linarith
  then show ?thesis using b by (simp add: mult_less_cancel_right)
qed

subsection \<open>The sign of \<^verbatim>\<open>float(n)\<close>\<close>

text \<open>The rounded significand of a positive integer has exactly 53 bits.\<close>

lemma significand_bounds:
  assumes "0 < m" and "significand_exponent m = (q, e)"
  shows "2 ^ 52 \<le> q \<and> q < 2 ^ 53"
proof -
  define k where "k = nat (bitlen m)"
  from bitlen_bounds [OF assms(1)]
  have lo: "2 ^ nat (bitlen m - 1) \<le> m" and hi: "m < 2 ^ k" by (simp_all add: k_def)
  have "bitlen m \<noteq> 0" using assms(1) by (simp add: bitlen_eq_zero_iff)
  with bitlen_nonneg [of m] have bpos: "1 \<le> bitlen m" by linarith
  then have kpos: "1 \<le> k" by (simp add: k_def)
  have km: "nat (bitlen m - 1) = k - 1" using bpos by (simp add: k_def nat_diff_distrib)
  show ?thesis
  proof (cases "k \<le> 53")
    case True
    then have q: "q = m * 2 ^ (53 - k)"
      using assms(2) by (simp add: significand_exponent_def k_def [symmetric])
    have "(k - 1) + (53 - k) = 52" using True kpos by simp
    then have "(2::int) ^ 52 = 2 ^ (k - 1) * 2 ^ (53 - k)"
      by (simp only: power_add [symmetric])
    also have "\<dots> \<le> m * 2 ^ (53 - k)"
      using lo km by (simp add: mult_right_mono)
    finally have a: "2 ^ 52 \<le> q" by (simp add: q)
    have "m * 2 ^ (53 - k) < 2 ^ k * 2 ^ (53 - k)"
      using hi by simp
    also have "\<dots> = (2::int) ^ (k + (53 - k))" by (simp only: power_add)
    also have "\<dots> = 2 ^ 53" using True by simp
    finally have "q < 2 ^ 53" by (simp add: q)
    with a show ?thesis by simp
  next
    case False
    define sh where "sh = k - 53"
    define q0 where "q0 = m div 2 ^ sh"
    have k: "k = 53 + sh" "k - 1 = 52 + sh" using False by (simp_all add: sh_def)
    have "(2::int) ^ 52 * 2 ^ sh \<le> m" using lo km k by (simp only: power_add)
    then have a: "2 ^ 52 \<le> q0"
      unfolding q0_def by (rule div_lower) simp
    have "m < 2 ^ 53 * 2 ^ sh" using hi k by (simp only: power_add)
    then have b: "q0 < 2 ^ 53"
      unfolding q0_def by (rule div_upper) simp
    define q1 where "q1 = (if 2 ^ (sh - 1) < m mod 2 ^ sh \<or> (m mod 2 ^ sh = 2 ^ (sh - 1) \<and> odd q0)
      then q0 + 1 else q0)"
    have q1: "q1 = q0 \<or> q1 = q0 + 1" by (simp add: q1_def)
    from False have "significand_exponent m = (if q1 = 2 ^ 53 then (2 ^ 52, k) else (q1, k - 1))"
      unfolding q1_def q0_def sh_def k_def by (simp add: significand_exponent_def Let_def)
    with assms(2) have "(q, e) = (if q1 = 2 ^ 53 then (2 ^ 52, k) else (q1, k - 1))" by simp
    then have "q = 2 ^ 52 \<or> (q = q1 \<and> q1 \<noteq> 2 ^ 53)" by (simp split: if_splits)
    with a b q1 show ?thesis by auto
  qed
qed

lemma significand_exponent_le: "significand_exponent m = (q, e) \<Longrightarrow> e \<le> nat (bitlen m)"
  by (auto simp add: significand_exponent_def Let_def split: if_splits)

text \<open>
  The bit pattern of \<^verbatim>\<open>float(n)\<close> for \<open>n \<noteq> 0\<close>: the sign bit of \<open>n\<close> and a biased
  exponent between 1023 and 2046, so the value is finite and not zero.
\<close>

lemma float_of_pyint_bits:
  assumes "n \<noteq> 0" and "float_of_pyint n = Inr x"
  shows "\<exists>b. x = word_of_int ((if n < 0 then 2 ^ 63 else 0) + b) \<and>
             1023 * 2 ^ 52 \<le> b \<and> b < 2047 * 2 ^ 52"
proof -
  obtain q e where qe: "significand_exponent \<bar>n\<bar> = (q, e)"
    by (cases "significand_exponent \<bar>n\<bar>")
  from assms(1) have "0 < \<bar>n\<bar>" by simp
  from significand_bounds [OF this qe] have q: "2 ^ 52 \<le> q" "q < 2 ^ 53" by simp_all
  from assms qe have e: "e \<le> 1023"
    and x: "x = word_of_int ((if n < 0 then 2 ^ 63 else 0) + ((int e + 1023) * 2 ^ 52 + (q - 2 ^ 52)))"
    by (auto simp add: float_of_pyint_def split: if_splits)
  let ?b = "(int e + 1023) * 2 ^ 52 + (q - 2 ^ 52)"
  have "1023 * 2 ^ 52 \<le> ?b" using q by simp
  moreover have "?b < 2047 * 2 ^ 52" using q e by simp
  ultimately show ?thesis using x by blast
qed

lemma uint_word64_of_int: "0 \<le> b \<Longrightarrow> b < 2 ^ 64 \<Longrightarrow> uint (word_of_int b :: 64 word) = b"
  by (simp add: uint_word_of_int_eq take_bit_int_eq_self)

lemma float_of_pyint_pos:
  assumes "0 < n" and "float_of_pyint n = Inr x"
  shows "float_gt_zero x"
proof -
  from float_of_pyint_bits [OF _ assms(2)] assms(1)
  obtain b where x: "x = word_of_int b" and b: "1023 * 2 ^ 52 \<le> b" "b < 2047 * 2 ^ 52"
    by auto
  have "uint x = b" unfolding x using b by (intro uint_word64_of_int) simp_all
  then show ?thesis using b by (simp add: float_gt_zero_def word_less_def word_le_def)
qed

lemma float_of_pyint_neg:
  assumes "n < 0" and "float_of_pyint n = Inr x"
  shows "float_lt_zero x"
proof -
  from float_of_pyint_bits [OF _ assms(2)] assms(1)
  obtain b where x: "x = word_of_int (2 ^ 63 + b)"
    and b: "1023 * 2 ^ 52 \<le> b" "b < 2047 * 2 ^ 52"
    by auto
  have "uint x = 2 ^ 63 + b" unfolding x using b by (intro uint_word64_of_int) simp_all
  then show ?thesis using b by (simp add: float_lt_zero_def word_less_def word_le_def)
qed

text \<open>An integer below \<open>2 ^ 1023\<close> in magnitude converts without overflow.\<close>

lemma float_of_pyint_defined:
  assumes "\<bar>n\<bar> < 2 ^ 1023"
  shows "\<exists>x. float_of_pyint n = Inr x"
proof (cases "n = 0")
  case True
  then show ?thesis by (simp add: float_of_pyint_def)
next
  case False
  obtain q e where qe: "significand_exponent \<bar>n\<bar> = (q, e)"
    by (cases "significand_exponent \<bar>n\<bar>")
  have "bitlen \<bar>n\<bar> \<le> 1023" using assms by (simp add: bitlen_le_iff_power)
  with significand_exponent_le [OF qe] have "e \<le> 1023" by simp
  with False qe show ?thesis by (simp add: float_of_pyint_def)
qed

subsection \<open>The value of \<^verbatim>\<open>float(n)\<close>\<close>

lemma float_value_examples:
  "float_value 0x3FF0000000000000 = Some 1 \<and>
   float_value 0xBFF0000000000000 = Some (- 1) \<and>
   float_value 0x4004000000000000 = Some (5 / 2) \<and>
   float_value 0x4340000000000000 = Some (2 ^ 53) \<and>
   float_value 0x0000000000000001 = Some (1 / 2 ^ 1074) \<and>
   float_value 0x7FF0000000000000 = None"
  by (simp add: float_value_def magnitude_def)

text \<open>
  An int with at most 53 significant bits is not rounded: the significand and exponent
  found for it give the int back.
\<close>

lemma significand_exact:
  assumes q0: "0 < q0" "q0 < 2 ^ 53" and m: "m = q0 * 2 ^ e0"
    and se: "significand_exponent m = (q, e)"
  shows "q * 2 ^ e = m * 2 ^ 52"
proof -
  define k where "k = nat (bitlen m)"
  have mpos: "0 < m" using q0 m by simp
  from bitlen_bounds [OF mpos] have hi: "m < 2 ^ k" by (simp add: k_def)
  have "bitlen m \<noteq> 0" using mpos by (simp add: bitlen_eq_zero_iff)
  with bitlen_nonneg [of m] have bpos: "1 \<le> bitlen m" by linarith
  then have kpos: "1 \<le> k" by (simp add: k_def)
  have "bitlen q0 \<le> 53" using q0 by (simp add: bitlen_le_iff_power)
  moreover have "bitlen m = bitlen q0 + int e0" using q0 m by simp
  ultimately have ke: "k \<le> 53 + e0" by (simp add: k_def)
  show ?thesis
  proof (cases "k \<le> 53")
    case True
    then have qe: "q = m * 2 ^ (53 - k)" "e = k - 1"
      using se by (simp_all add: significand_exponent_def k_def [symmetric])
    have "(53 - k) + (k - 1) = 52" using True kpos by simp
    then have "(2::int) ^ (53 - k) * 2 ^ (k - 1) = 2 ^ 52" by (simp only: power_add [symmetric])
    then show ?thesis by (simp add: qe mult.assoc)
  next
    case False
    define sh where "sh = k - 53"
    have k: "k = 53 + sh" "k - 1 = 52 + sh" using False by (simp_all add: sh_def)
    have she: "sh \<le> e0" using ke k by simp
    then have "e0 = sh + (e0 - sh)" by simp
    then have "(2::int) ^ e0 = 2 ^ sh * 2 ^ (e0 - sh)" by (simp only: power_add [symmetric])
    then have mm: "m = q0 * 2 ^ (e0 - sh) * 2 ^ sh" using m by simp
    then have r0: "m mod 2 ^ sh = 0" by simp
    from mm have dm: "m div 2 ^ sh * 2 ^ sh = m" by simp
    have "m < 2 ^ 53 * 2 ^ sh" using hi k by (simp only: power_add)
    then have b: "m div 2 ^ sh < 2 ^ 53" by (rule div_upper) simp
    have half: "(0::int) < 2 ^ (sh - 1)" by simp
    from False r0 half b have "significand_exponent m = (m div 2 ^ sh, k - 1)"
      unfolding sh_def k_def by (simp add: significand_exponent_def Let_def)
    with se have qe: "q = m div 2 ^ sh" "e = k - 1" by simp_all
    have "q * 2 ^ e = m div 2 ^ sh * (2 ^ sh * 2 ^ 52)"
      by (simp add: qe k power_add mult.commute)
    also have "\<dots> = m * 2 ^ 52" using dm by (simp add: mult.assoc [symmetric])
    finally show ?thesis .
  qed
qed


lemma div_mod_digits:
  "0 \<le> f \<Longrightarrow> f < b \<Longrightarrow> (a * b + f) div b = a \<and> (a * b + f) mod b = (f::int)"
  by (simp add: div_pos_pos_trivial mod_pos_pos_trivial)

lemma float_value_bits:
  assumes q: "2 ^ 52 \<le> q" "q < 2 ^ 53" and e: "e \<le> 1023"
  shows "float_value (word_of_int ((int e + 1023) * 2 ^ 52 + (q - 2 ^ 52)))
     = Some (real_of_int q * 2 ^ e / 2 ^ 52)"
proof -
  define f where "f = q - 2 ^ 52"
  define u where "u = (int e + 1023) * 2 ^ 52 + f"
  have f: "0 \<le> f" "f < 2 ^ 52" using q by (simp_all add: f_def)
  have u: "0 \<le> u" "u < 2 ^ 63" using f e by (simp_all add: u_def)
  then have uint: "uint (word_of_int u :: 64 word) = u"
    by (intro uint_word64_of_int) simp_all
  from div_mod_digits [OF f, of "int e + 1023"]
  have d52: "u div 2 ^ 52 = int e + 1023" and m52: "u mod 2 ^ 52 = f"
    unfolding u_def by blast+
  have d63: "u div 2 ^ 63 = 0"
    using u by (simp add: div_pos_pos_trivial)
  have m11: "(int e + 1023) mod 2 ^ 11 = int e + 1023"
    using e by (simp add: mod_pos_pos_trivial)
  have qf: "2 ^ 52 + f = q" by (simp add: f_def)
  have val: "float_value (word_of_int u) = Some (magnitude (int e + 1023) f)"
    unfolding float_value_def Let_def uint d52 m52 d63 m11 using e by simp
  have "magnitude (int e + 1023) f = real_of_int q * 2 ^ e / 2 ^ 52"
  proof (cases "52 \<le> e")
    case True
    then have "e = (e - 52) + 52" by simp
    then have pw: "(2::real) ^ e = 2 ^ (e - 52) * 2 ^ 52" by (simp only: power_add [symmetric])
    have "nat (int e + 1023 - 1075) = e - 52" using True by simp
    with True have "magnitude (int e + 1023) f = real_of_int q * 2 ^ (e - 52)"
      by (simp add: magnitude_def f_def)
    also have "\<dots> = real_of_int q * 2 ^ e / 2 ^ 52"
      by (simp only: pw) simp
    finally show ?thesis .
  next
    case False
    then have "52 = (52 - e) + e" by simp
    then have pw: "(2::real) ^ 52 = 2 ^ (52 - e) * 2 ^ e" by (simp only: power_add [symmetric])
    have "nat (1075 - (int e + 1023)) = 52 - e" using False by simp
    with False have "magnitude (int e + 1023) f = real_of_int q / 2 ^ (52 - e)"
      by (simp add: magnitude_def f_def)
    also have "\<dots> = real_of_int q * 2 ^ e / 2 ^ 52"
      by (simp only: pw) simp
    finally show ?thesis .
  qed
  with val show ?thesis by (simp add: u_def f_def)
qed

lemma float_of_pyint_exact:
  assumes q0: "0 < q0" "q0 < 2 ^ 53" and n: "n = q0 * 2 ^ e0" and lim: "n < 2 ^ 1024"
  shows "\<exists>y. float_of_pyint n = Inr y \<and> float_value y = Some (real_of_int n)"
proof -
  have npos: "0 < n" using q0 n by simp
  obtain q e where se: "significand_exponent n = (q, e)"
    by (cases "significand_exponent n")
  from significand_bounds [OF npos se] have q: "2 ^ 52 \<le> q" "q < 2 ^ 53" by simp_all
  from significand_exact [OF q0 n se] have ex: "q * 2 ^ e = n * 2 ^ 52" .
  have e: "e \<le> 1023"
  proof (rule ccontr)
    assume "\<not> e \<le> 1023"
    then have "1024 \<le> e" by simp
    then have "(2::int) ^ 1024 \<le> 2 ^ e" by (intro power_increasing) simp_all
    then have "(2::int) ^ 52 * 2 ^ 1024 \<le> q * 2 ^ e" using q by (intro mult_mono) simp_all
    with ex have "(2::int) ^ 1024 * 2 ^ 52 \<le> n * 2 ^ 52" by (simp add: mult.commute)
    then have "2 ^ 1024 \<le> n" by simp
    with lim show False by simp
  qed
  from npos se e have y: "float_of_pyint n
      = Inr (word_of_int ((int e + 1023) * 2 ^ 52 + (q - 2 ^ 52)))"
    by (simp add: float_of_pyint_def)
  from ex have "real_of_int (q * 2 ^ e) = real_of_int (n * 2 ^ 52)" by simp
  then have "real_of_int q * 2 ^ e / 2 ^ 52 = real_of_int n" by simp
  with float_value_bits [OF q e] y show ?thesis by simp
qed

lemma float_of_pyint_overflow:
  assumes "2 ^ 1024 \<le> \<bar>n\<bar>"
  shows "float_of_pyint n = Inl OverflowError"
proof -
  from assms have nz: "n \<noteq> 0" by auto
  obtain q e where se: "significand_exponent \<bar>n\<bar> = (q, e)"
    by (cases "significand_exponent \<bar>n\<bar>")
  have "\<not> bitlen \<bar>n\<bar> \<le> 1024" using assms by (simp add: bitlen_le_iff_power)
  then have k: "1025 \<le> nat (bitlen \<bar>n\<bar>)" by simp
  from se have "e = nat (bitlen \<bar>n\<bar>) \<or> e = nat (bitlen \<bar>n\<bar>) - 1"
    by (auto simp add: significand_exponent_def Let_def split: if_splits)
  with k have "1023 < e" by auto
  with nz se show ?thesis by (simp add: float_of_pyint_def)
qed

lemma magnitude_nonneg: "0 \<le> f \<Longrightarrow> 0 \<le> magnitude e f"
  by (simp add: magnitude_def)

lemma float_value_pos_gt_zero:
  assumes "float_value x = Some d" and "0 < d"
  shows "float_gt_zero x"
proof -
  define u where "u = uint x"
  define e where "e = (u div 2 ^ 52) mod 2 ^ 11"
  define f where "f = u mod 2 ^ 52"
  have u: "0 \<le> u" "u < 2 ^ 64"
    unfolding u_def using uint_lt2p [of x] by simp_all
  have f: "0 \<le> f" by (simp add: f_def)
  from assms(1) have e: "e \<noteq> 2047"
    and d: "d = (if u div 2 ^ 63 = 1 then - 1 else 1) * magnitude e f"
    unfolding float_value_def u_def [symmetric] Let_def e_def [symmetric] f_def [symmetric]
    by (simp_all split: if_splits)
  have s: "u div 2 ^ 63 \<noteq> 1"
  proof
    assume "u div 2 ^ 63 = 1"
    with d have "d = - magnitude e f" by simp
    with magnitude_nonneg [OF f, of e] assms(2) show False by simp
  qed
  have "u div 2 ^ 63 < 2" using u by (intro div_upper) simp_all
  moreover have "0 \<le> u div 2 ^ 63" using u by (simp add: pos_imp_zdiv_nonneg_iff)
  ultimately have "u div 2 ^ 63 = 0" using s by linarith
  then have u63: "u < 2 ^ 63" using u by (auto simp add: zdiv_eq_0_iff)
  have lt: "u div 2 ^ 52 < 2 ^ 11" using u63 by (intro div_upper) simp_all
  moreover have "0 \<le> u div 2 ^ 52" using u by (simp add: pos_imp_zdiv_nonneg_iff)
  ultimately have "e = u div 2 ^ 52" by (simp add: e_def mod_pos_pos_trivial)
  with e lt have top: "u div 2 ^ 52 < 2047" by simp
  have hi: "u < 2047 * 2 ^ 52"
  proof (rule ccontr)
    assume "\<not> u < 2047 * 2 ^ 52"
    then have "2047 * 2 ^ 52 \<le> u" by simp
    then have "2047 \<le> u div 2 ^ 52" by (rule div_lower) simp
    with top show False by simp
  qed
  have "u \<noteq> 0"
  proof
    assume "u = 0"
    then have "e = 0" "f = 0" by (simp_all add: e_def f_def)
    with d have "d = 0" by (simp add: magnitude_def)
    with assms(2) show False by simp
  qed
  with u have lo: "0 < u" by simp
  from lo hi show ?thesis
    by (simp add: float_gt_zero_def word_less_def word_le_def u_def [symmetric])
qed


subsection \<open>Exclusive comparisons\<close>

text \<open>The three comparisons exclude each other.\<close>

lemma float_gt_zero_excl: "float_gt_zero x \<Longrightarrow> \<not> float_eq_zero x \<and> \<not> float_lt_zero x"
  by (auto simp add: float_gt_zero_def float_eq_zero_def float_lt_zero_def word_less_def word_le_def)

lemma float_lt_zero_excl: "float_lt_zero x \<Longrightarrow> \<not> float_eq_zero x"
  by (auto simp add: float_eq_zero_def float_lt_zero_def word_less_def word_le_def)

subsection \<open>\<^verbatim>\<open>_set_timeout_value\<close> by the sign of the converted value\<close>

lemma py_float_not_None: "py_float v = Inr x \<Longrightarrow> v \<noteq> PNone"
  by (auto simp add: py_float_def)

lemma set_timeout_value_converted:
  assumes "py_float v = Inr x"
  shows "set_timeout_value v self =
     (if float_eq_zero x then (Inr (), self\<lparr>timeout := None\<rparr>)
      else if float_lt_zero x then (Inl ValueError, self\<lparr>timeout := Some x\<rparr>)
      else (Inr (), self\<lparr>timeout := Some x\<rparr>))"
  using assms py_float_not_None [OF assms] by (simp add: set_timeout_value_def Let_def)

lemma set_timeout_value_gt_zero:
  "py_float v = Inr x \<Longrightarrow> float_gt_zero x \<Longrightarrow>
     set_timeout_value v self = (Inr (), self\<lparr>timeout := Some x\<rparr>)"
  using float_gt_zero_excl [of x] by (simp add: set_timeout_value_converted)

lemma set_timeout_value_eq_zero:
  "py_float v = Inr x \<Longrightarrow> float_eq_zero x \<Longrightarrow>
     set_timeout_value v self = (Inr (), self\<lparr>timeout := None\<rparr>)"
  by (simp add: set_timeout_value_converted)

lemma set_timeout_value_lt_zero:
  "py_float v = Inr x \<Longrightarrow> float_lt_zero x \<Longrightarrow>
     set_timeout_value v self = (Inl ValueError, self\<lparr>timeout := Some x\<rparr>)"
  using float_lt_zero_excl [of x] by (simp add: set_timeout_value_converted)

subsection \<open>Setter calls and the stored encoding\<close>

lemma call_encoding:
  "encoding (snd (call enc dec c self)) = encoding self \<or>
   (\<exists>name. c = SetEncoding name \<and> round_trips enc dec name \<and>
      encoding (snd (call enc dec c self)) = name)"
  by (cases c)
    (auto simp: encoding_setter_def read_termination_setter_def write_termination_setter_def
       max_read_size_setter_def set_timeout_value_def round_trips_def Let_def
       split: sum.splits option.splits)

lemma calls_round_trips:
  "round_trips enc dec (encoding self) \<Longrightarrow> round_trips enc dec (encoding (calls enc dec cs self))"
proof (induction cs arbitrary: self)
  case Nil
  then show ?case by simp
next
  case (Cons c cs)
  from call_encoding [of enc dec c self] Cons.prems
  have "round_trips enc dec (encoding (snd (call enc dec c self)))" by auto
  then show ?case using Cons.IH by simp
qed

lemma round_trips_iff:
  "round_trips enc dec name \<longleftrightarrow>
     (\<exists>bs t. enc ''test encoding'' name = Inr bs \<and> dec bs name = Inr t)"
  by (auto simp add: round_trips_def round_trip_def probe_def split: sum.splits)

lemma example_utf8_round_trips: "round_trips example_encode example_decode ''utf-8''"
  by (simp add: round_trips_def round_trip_def example_encode_def example_decode_def
      probe_def utf8_encode_char_def)

subsection \<open>The calls a query makes\<close>

text \<open>
  On the example transport a query without delay logs the write and the read and no
  sleep; with the delay \<^verbatim>\<open>1.0\<close> the sleep is logged between them.
\<close>

lemma query_example_log:
  "query (example_write True) (example_read True) example_sleep ''*IDN?'' (PInt 0) PNone []
     = (Inr ''MODEL-42'', [WriteCalled ''*IDN?'', ReadCalled PNone]) \<and>
   query (example_write True) (example_read True) example_sleep ''*IDN?''
     (PFloat 0x3FF0000000000000) PNone []
     = (Inr ''MODEL-42'',
        [WriteCalled ''*IDN?'', SleepCalled (PFloat 0x3FF0000000000000), ReadCalled PNone])"
  by (simp add: query_def delay_step_def example_write_def example_read_def example_sleep_def
      float_gt_zero_def)

lemma elapsed_append: "elapsed (v @ w) = elapsed v + elapsed w"
  by (induction v rule: elapsed.induct) simp_all

subsection \<open>The steps of a query with a positive delay\<close>

text \<open>
  With \<^verbatim>\<open>delay > 0.0\<close> the method calls \<^verbatim>\<open>write\<close>, then \<^verbatim>\<open>time.sleep(delay)\<close> in
  the state \<^verbatim>\<open>write\<close> left, then \<^verbatim>\<open>read\<close> in the state \<^verbatim>\<open>time.sleep\<close> left.
  How long \<^verbatim>\<open>time.sleep\<close> suspends the thread is a matter of the interpreter and
  the operating system, not of this model.
\<close>

lemma query_positive_delay:
  "py_gt_zero delay = Inr True \<Longrightarrow>
     query write read sleep message delay sz w =
       (case write message w of
          (Inl e, w1) \<Rightarrow> (Inl e, w1)
        | (Inr _, w1) \<Rightarrow>
            (case sleep delay w1 of
               (Inl e, w2) \<Rightarrow> (Inl e, w2)
             | (Inr _, w2) \<Rightarrow> read sz w2))"
  by (simp add: query_def delay_step_def split: prod.splits sum.splits)

text \<open>A delay that stands for a positive number of seconds passes the test \<^verbatim>\<open>delay > 0.0\<close>.\<close>

lemma seconds_pos_gt_zero:
  "seconds delay = Some d \<Longrightarrow> 0 < d \<Longrightarrow> py_gt_zero delay = Inr True"
  by (cases delay) (auto simp add: float_value_pos_gt_zero split: if_splits)

section \<open>The claims\<close>

text \<open>
  C1. For every negative number \<open>t\<close>, \<^verbatim>\<open>_set_timeout_value(t)\<close> fails with
  \<^verbatim>\<open>ValueError\<close> and leaves the previously stored timeout unchanged.

  The method does raise \<^verbatim>\<open>ValueError\<close>, but only after the assignment
  \<^verbatim>\<open>self._timeout = float(value)\<close>: on a connection whose timeout was set to
  \<^verbatim>\<open>5.0\<close>, the call with \<^verbatim>\<open>-1.0\<close> raises and leaves \<^verbatim>\<open>-1.0\<close> stored.
\<close>

theorem set_timeout_value_negative_is_stored:
  "set_timeout_value (PFloat 0xBFF0000000000000)
     (snd (set_timeout_value (PFloat 0x4014000000000000) init))
   = (Inl ValueError, init\<lparr>timeout := Some 0xBFF0000000000000\<rparr>) \<and>
   timeout (snd (set_timeout_value (PFloat 0x4014000000000000) init))
   = Some 0x4014000000000000"
  by (simp add: set_timeout_value_def py_float_def float_eq_zero_def float_lt_zero_def)

text \<open>
  C2, as stated: after \<^verbatim>\<open>_set_timeout_value(None)\<close> the stored timeout is unset,
  whatever was stored before. This fails on a connection whose timeout was set to
  \<^verbatim>\<open>1.0\<close>: the call with \<^verbatim>\<open>None\<close> leaves the timeout set.
\<close>

theorem set_timeout_value_None_counterexample:
  "timeout (snd (set_timeout_value PNone
     (snd (set_timeout_value (PFloat 0x3FF0000000000000) init)))) \<noteq> None"
  by (simp add: set_timeout_value_def py_float_def float_eq_zero_def float_lt_zero_def)

text \<open>
  C2, amended: \<^verbatim>\<open>_set_timeout_value(None)\<close> returns normally and changes nothing; the
  stored timeout (and every other attribute) is what it was before the call.
\<close>

theorem set_timeout_value_None_unchanged:
  "set_timeout_value PNone self = (Inr (), self)"
  by (simp add: set_timeout_value_def)

text \<open>
  C3. For every integer \<open>n \<ge> 1\<close>, setting \<^verbatim>\<open>max_read_size\<close> to \<open>n\<close> succeeds and the
  stored limit becomes \<open>n\<close>; for every value that is not an integer, and for every
  integer \<open>k \<le> 0\<close>, the setter fails with \<^verbatim>\<open>ValueError\<close> and the object is
  unchanged.
\<close>

theorem max_read_size_setter_validates:
  "(1 \<le> n \<longrightarrow>
      max_read_size_setter (PInt n) self = (Inr (), self\<lparr>max_read_size := n\<rparr>)) \<and>
   (\<not> isinstance_int v \<longrightarrow> max_read_size_setter v self = (Inl ValueError, self)) \<and>
   (k \<le> 0 \<longrightarrow> max_read_size_setter (PInt k) self = (Inl ValueError, self))"
  by (simp add: max_read_size_setter_def isinstance_int_def)

theorem max_read_size_setter_validates_witness:
  "(1::int) \<le> 4096 \<and>
   max_read_size_setter (PInt 4096) init = (Inr (), init\<lparr>max_read_size := 4096\<rparr>) \<and>
   \<not> isinstance_int (PFloat 0x4004000000000000) \<and>
   max_read_size_setter (PFloat 0x4004000000000000) init = (Inl ValueError, init) \<and>
   (-3::int) \<le> 0 \<and>
   max_read_size_setter (PInt (-3)) init = (Inl ValueError, init)"
  using max_read_size_setter_validates [of 4096 init "PFloat 0x4004000000000000" "-3"]
  by (simp add: isinstance_int_def)

text \<open>
  C4. For every codec name the \<^verbatim>\<open>encoding\<close> setter encodes the probe string
  \<^verbatim>\<open>'test encoding'\<close> with that codec and decodes the result with it. If the encoding
  raises, or the decoding of the encoded bytes raises, the setter raises that exception
  and the object is unchanged; if both succeed, the stored encoding becomes the new
  name and nothing else changes. Hence, over any sequence of setter calls, a stored
  encoding that round-trips the probe stays one that round-trips it.
\<close>

theorem encoding_setter_round_trip:
  "(enc ''test encoding'' name = Inl e1 \<longrightarrow>
      encoding_setter enc dec name self = (Inl e1, self)) \<and>
   (enc ''test encoding'' name = Inr bs \<and> dec bs name = Inl e2 \<longrightarrow>
      encoding_setter enc dec name self = (Inl e2, self)) \<and>
   (enc ''test encoding'' name = Inr bs \<and> dec bs name = Inr t \<longrightarrow>
      encoding_setter enc dec name self = (Inr (), self\<lparr>encoding := name\<rparr>)) \<and>
   ((\<exists>bs t. enc ''test encoding'' (encoding self) = Inr bs \<and>
        dec bs (encoding self) = Inr t) \<longrightarrow>
    (\<exists>bs t. enc ''test encoding'' (encoding (calls enc dec cs self)) = Inr bs \<and>
        dec bs (encoding (calls enc dec cs self)) = Inr t))"
proof (intro conjI impI)
  assume "enc ''test encoding'' name = Inl e1"
  then show "encoding_setter enc dec name self = (Inl e1, self)"
    by (simp add: encoding_setter_def round_trip_def probe_def)
next
  assume "enc ''test encoding'' name = Inr bs \<and> dec bs name = Inl e2"
  then show "encoding_setter enc dec name self = (Inl e2, self)"
    by (simp add: encoding_setter_def round_trip_def probe_def)
next
  assume "enc ''test encoding'' name = Inr bs \<and> dec bs name = Inr t"
  then show "encoding_setter enc dec name self = (Inr (), self\<lparr>encoding := name\<rparr>)"
    by (simp add: encoding_setter_def round_trip_def probe_def)
next
  assume "\<exists>bs t. enc ''test encoding'' (encoding self) = Inr bs \<and>
        dec bs (encoding self) = Inr t"
  then have "round_trips enc dec (encoding self)" by (simp only: round_trips_iff)
  then have "round_trips enc dec (encoding (calls enc dec cs self))"
    by (rule calls_round_trips)
  then show "\<exists>bs t. enc ''test encoding'' (encoding (calls enc dec cs self)) = Inr bs \<and>
        dec bs (encoding (calls enc dec cs self)) = Inr t"
    by (simp only: round_trips_iff)
qed

theorem encoding_setter_round_trip_witness:
  "example_encode ''test encoding'' ''not-a-real-codec'' = Inl LookupError \<and>
   encoding_setter example_encode example_decode ''not-a-real-codec'' init
     = (Inl LookupError, init) \<and>
   example_encode ''test encoding'' ''ascii''
     = Inr [116, 101, 115, 116, 32, 101, 110, 99, 111, 100, 105, 110, 103] \<and>
   rejecting_decode [116, 101, 115, 116, 32, 101, 110, 99, 111, 100, 105, 110, 103] ''ascii''
     = Inl UnicodeError \<and>
   encoding_setter example_encode rejecting_decode ''ascii'' init = (Inl UnicodeError, init) \<and>
   example_decode [116, 101, 115, 116, 32, 101, 110, 99, 111, 100, 105, 110, 103] ''ascii''
     = Inr ''test encoding'' \<and>
   encoding_setter example_encode example_decode ''ascii'' init
     = (Inr (), init\<lparr>encoding := ''ascii''\<rparr>) \<and>
   (\<exists>bs t. example_encode ''test encoding'' (encoding init) = Inr bs \<and>
      example_decode bs (encoding init) = Inr t) \<and>
   (\<exists>bs t. example_encode ''test encoding''
        (encoding (calls example_encode example_decode
           [SetEncoding ''not-a-real-codec'', SetTimeoutValue (PFloat 0xBFF0000000000000),
            SetReadTermination None, SetEncoding ''ascii''] init)) = Inr bs \<and>
      example_decode bs
        (encoding (calls example_encode example_decode
           [SetEncoding ''not-a-real-codec'', SetTimeoutValue (PFloat 0xBFF0000000000000),
            SetReadTermination None, SetEncoding ''ascii''] init)) = Inr t)"
proof -
  have unknown: "example_encode ''test encoding'' ''not-a-real-codec'' = Inl LookupError"
    by (simp add: example_encode_def)
  have encoded: "example_encode ''test encoding'' ''ascii''
     = Inr [116, 101, 115, 116, 32, 101, 110, 99, 111, 100, 105, 110, 103]"
    by code_simp
  have rejected: "rejecting_decode
       [116, 101, 115, 116, 32, 101, 110, 99, 111, 100, 105, 110, 103] ''ascii''
     = Inl UnicodeError"
    by (simp add: rejecting_decode_def)
  have decoded: "example_decode
       [116, 101, 115, 116, 32, 101, 110, 99, 111, 100, 105, 110, 103] ''ascii''
     = Inr ''test encoding''"
    by code_simp
  have start: "\<exists>bs t. example_encode ''test encoding'' (encoding init) = Inr bs \<and>
      example_decode bs (encoding init) = Inr t"
    using example_utf8_round_trips by (simp only: round_trips_iff init_def) simp
  note first = encoding_setter_round_trip [of example_encode "''not-a-real-codec''"
      LookupError example_decode init
      "[116, 101, 115, 116, 32, 101, 110, 99, 111, 100, 105, 110, 103]" UnicodeError
      "''test encoding''"
      "[SetEncoding ''not-a-real-codec'', SetTimeoutValue (PFloat 0xBFF0000000000000),
        SetReadTermination None, SetEncoding ''ascii'']"]
  note second = encoding_setter_round_trip [of example_encode "''ascii''"
      LookupError rejecting_decode init
      "[116, 101, 115, 116, 32, 101, 110, 99, 111, 100, 105, 110, 103]" UnicodeError
      "''test encoding''" "[]"]
  note third = encoding_setter_round_trip [of example_encode "''ascii''"
      LookupError example_decode init
      "[116, 101, 115, 116, 32, 101, 110, 99, 111, 100, 105, 110, 103]" UnicodeError
      "''test encoding''" "[]"]
  have a: "encoding_setter example_encode example_decode ''not-a-real-codec'' init
     = (Inl LookupError, init)"
    by (rule first [THEN conjunct1, rule_format, OF unknown])
  have b: "encoding_setter example_encode rejecting_decode ''ascii'' init
     = (Inl UnicodeError, init)"
    by (rule second [THEN conjunct2, THEN conjunct1, rule_format,
          OF conjI [OF encoded rejected]])
  have c: "encoding_setter example_encode example_decode ''ascii'' init
     = (Inr (), init\<lparr>encoding := ''ascii''\<rparr>)"
    by (rule third [THEN conjunct2, THEN conjunct2, THEN conjunct1, rule_format,
          OF conjI [OF encoded decoded]])
  note d = first [THEN conjunct2, THEN conjunct2, THEN conjunct2, rule_format, OF start]
  show ?thesis by (intro conjI unknown a encoded rejected b decoded c start d)
qed

text \<open>
  C5. \<^verbatim>\<open>query(message, delay=0)\<close> is \<^verbatim>\<open>write(message)\<close> immediately followed by
  \<^verbatim>\<open>read(size)\<close>: the same write is made, the result and the final state are those
  of \<^verbatim>\<open>read\<close>, and \<^verbatim>\<open>time.sleep\<close> is not called (the equation holds whatever
  \<open>sleep\<close> would do). This holds for the int \<open>0\<close> and for the floats \<open>0.0\<close> and
  \<open>-0.0\<close>.
\<close>

theorem query_zero_delay:
  "query write read sleep message (PInt 0) sz w = write_then_read write read message sz w \<and>
   query write read sleep message (PFloat 0) sz w = write_then_read write read message sz w \<and>
   query write read sleep message (PFloat 0x8000000000000000) sz w
     = write_then_read write read message sz w"
  by (simp add: query_def write_then_read_def delay_step_def float_gt_zero_def
      split: prod.splits sum.splits)

text \<open>
  C6. If \<^verbatim>\<open>write\<close> fails, \<^verbatim>\<open>query\<close> fails with the same error in the state
  \<^verbatim>\<open>write\<close> left, whatever \<^verbatim>\<open>time.sleep\<close> and \<^verbatim>\<open>read\<close> would do: neither is
  called. If \<^verbatim>\<open>write\<close> and the delay step succeed and \<^verbatim>\<open>read\<close> fails, \<^verbatim>\<open>query\<close>
  fails with the error of \<^verbatim>\<open>read\<close>. Every error of \<^verbatim>\<open>query\<close> is the error of the
  one step that failed, in the state that step left: none is replaced, and no step is
  tried again.
\<close>

theorem query_error_propagation:
  "(write message w = (Inl e, w1) \<longrightarrow>
      query write read sleep message delay sz w = (Inl e, w1)) \<and>
   (write message w = (Inr n, w1) \<and> delay_step sleep delay w1 = (Inr (), w2) \<and>
    read sz w2 = (Inl e, w3) \<longrightarrow>
      query write read sleep message delay sz w = (Inl e, w3)) \<and>
   (query write read sleep message delay sz w = (Inl e, w') \<longrightarrow>
      write message w = (Inl e, w') \<or>
      (\<exists>n' v1. write message w = (Inr n', v1) \<and>
         (delay_step sleep delay v1 = (Inl e, w') \<or>
          (\<exists>v2. delay_step sleep delay v1 = (Inr (), v2) \<and> read sz v2 = (Inl e, w')))))"
  by (auto simp add: query_def split: prod.splits sum.splits)

theorem query_error_propagation_witness:
  "example_write False ''*IDN?'' [] = (Inl IOError, [WriteCalled ''*IDN?'']) \<and>
   query (example_write False) (example_read True) example_sleep ''*IDN?''
     (PFloat 0x3FF0000000000000) PNone []
     = (Inl IOError, [WriteCalled ''*IDN?'']) \<and>
   example_write True ''*IDN?'' [] = (Inr 5, [WriteCalled ''*IDN?'']) \<and>
   delay_step example_sleep (PFloat 0x3FF0000000000000) [WriteCalled ''*IDN?'']
     = (Inr (), [WriteCalled ''*IDN?'', SleepCalled (PFloat 0x3FF0000000000000)]) \<and>
   example_read False PNone [WriteCalled ''*IDN?'', SleepCalled (PFloat 0x3FF0000000000000)]
     = (Inl MSLTimeoutError,
        [WriteCalled ''*IDN?'', SleepCalled (PFloat 0x3FF0000000000000), ReadCalled PNone]) \<and>
   query (example_write True) (example_read False) example_sleep ''*IDN?''
     (PFloat 0x3FF0000000000000) PNone []
     = (Inl MSLTimeoutError,
        [WriteCalled ''*IDN?'', SleepCalled (PFloat 0x3FF0000000000000), ReadCalled PNone])"
proof -
  have w0: "example_write False ''*IDN?'' [] = (Inl IOError, [WriteCalled ''*IDN?''])"
    by (simp add: example_write_def)
  have w1: "example_write True ''*IDN?'' [] = (Inr 5, [WriteCalled ''*IDN?''])"
    by (simp add: example_write_def)
  have d: "delay_step example_sleep (PFloat 0x3FF0000000000000) [WriteCalled ''*IDN?'']
     = (Inr (), [WriteCalled ''*IDN?'', SleepCalled (PFloat 0x3FF0000000000000)])"
    by (simp add: delay_step_def example_sleep_def float_gt_zero_def)
  have r: "example_read False PNone
       [WriteCalled ''*IDN?'', SleepCalled (PFloat 0x3FF0000000000000)]
     = (Inl MSLTimeoutError,
        [WriteCalled ''*IDN?'', SleepCalled (PFloat 0x3FF0000000000000), ReadCalled PNone])"
    by (simp add: example_read_def)
  note fails = query_error_propagation [of "example_write False" "''*IDN?''" "[]" IOError
      "[WriteCalled ''*IDN?'']" "example_read True" example_sleep
      "PFloat 0x3FF0000000000000" PNone]
  note times_out = query_error_propagation [of "example_write True" "''*IDN?''" "[]"
      MSLTimeoutError "[WriteCalled ''*IDN?'']" "example_read False" example_sleep
      "PFloat 0x3FF0000000000000" PNone 5
      "[WriteCalled ''*IDN?'', SleepCalled (PFloat 0x3FF0000000000000)]"
      "[WriteCalled ''*IDN?'', SleepCalled (PFloat 0x3FF0000000000000), ReadCalled PNone]"]
  have q0: "query (example_write False) (example_read True) example_sleep ''*IDN?''
     (PFloat 0x3FF0000000000000) PNone [] = (Inl IOError, [WriteCalled ''*IDN?''])"
    by (rule fails [THEN conjunct1, rule_format, OF w0])
  have q1: "query (example_write True) (example_read False) example_sleep ''*IDN?''
     (PFloat 0x3FF0000000000000) PNone []
     = (Inl MSLTimeoutError,
        [WriteCalled ''*IDN?'', SleepCalled (PFloat 0x3FF0000000000000), ReadCalled PNone])"
    by (rule times_out [THEN conjunct2, THEN conjunct1, rule_format,
          OF conjI [OF w1 conjI [OF d r]]])
  show ?thesis by (intro conjI w0 q0 w1 d r q1)
qed

text \<open>
  C7. A freshly constructed connection has \<open>read_termination\<close> the line-feed character,
  \<open>write_termination\<close> carriage-return followed by line-feed, \<open>encoding\<close> UTF-8,
  \<open>max_read_size\<close> 65536 and no timeout.
\<close>

theorem init_defaults:
  "read_termination init = Some [CHR 0x0A] \<and>
   write_termination init = Some [CHR 0x0D, CHR 0x0A] \<and>
   encoding init = ''utf-8'' \<and>
   max_read_size init = 65536 \<and>
   timeout init = None"
  by (simp add: init_def CR_def LF_def)

text \<open>
  C8, as stated: for every \<open>t > 0\<close>, \<^verbatim>\<open>_set_timeout_value(t)\<close> stores \<open>t\<close>. This fails
  for the int \<open>2 ^ 1024\<close>: \<^verbatim>\<open>float(value)\<close> raises \<^verbatim>\<open>OverflowError\<close> and the
  timeout set before, \<^verbatim>\<open>5.0\<close>, stays stored.
\<close>

theorem set_timeout_value_huge_int_counterexample:
  "set_timeout_value (PInt (2 ^ 1024))
     (snd (set_timeout_value (PFloat 0x4014000000000000) init))
   = (Inl OverflowError, init\<lparr>timeout := Some 0x4014000000000000\<rparr>)"
proof -
  have "float_of_pyint (2 ^ 1024) = Inl OverflowError"
    by (rule float_of_pyint_overflow) simp
  then show ?thesis
    by (simp add: set_timeout_value_def py_float_def float_eq_zero_def float_lt_zero_def)
qed

text \<open>
  C8, amended. For every float \<open>x > 0\<close> (the infinity included)
  \<^verbatim>\<open>_set_timeout_value(x)\<close> stores \<open>x\<close>. For every int \<open>t > 0\<close> that a float holds
  exactly (\<open>t = q * 2 ^ k\<close> with \<open>q < 2 ^ 53\<close>, and \<open>t < 2 ^ 1024\<close>) it stores the float
  whose value is \<open>t\<close>. For every int \<open>n \<ge> 2 ^ 1024\<close> it raises \<^verbatim>\<open>OverflowError\<close> and
  changes nothing. Called with a zero (the float \<open>0.0\<close> or \<open>-0.0\<close>, or the int \<open>0\<close>)
  it stores \<^verbatim>\<open>None\<close>.
\<close>

theorem set_timeout_value_positive_or_zero:
  "(float_gt_zero x \<longrightarrow>
      set_timeout_value (PFloat x) self = (Inr (), self\<lparr>timeout := Some x\<rparr>)) \<and>
   (0 < q \<and> q < 2 ^ 53 \<and> q * 2 ^ k < 2 ^ 1024 \<longrightarrow>
      (\<exists>y. float_value y = Some (real_of_int (q * 2 ^ k)) \<and>
         set_timeout_value (PInt (q * 2 ^ k)) self = (Inr (), self\<lparr>timeout := Some y\<rparr>))) \<and>
   (2 ^ 1024 \<le> n \<longrightarrow> set_timeout_value (PInt n) self = (Inl OverflowError, self)) \<and>
   (float_eq_zero z \<longrightarrow>
      set_timeout_value (PFloat z) self = (Inr (), self\<lparr>timeout := None\<rparr>)) \<and>
   set_timeout_value (PInt 0) self = (Inr (), self\<lparr>timeout := None\<rparr>)"
proof (intro conjI impI)
  assume "float_gt_zero x"
  then show "set_timeout_value (PFloat x) self = (Inr (), self\<lparr>timeout := Some x\<rparr>)"
    by (simp add: set_timeout_value_gt_zero py_float_def)
next
  assume h: "0 < q \<and> q < 2 ^ 53 \<and> q * 2 ^ k < 2 ^ 1024"
  then have q: "0 < q" "q < 2 ^ 53" and lim: "q * 2 ^ k < 2 ^ 1024" by blast+
  from float_of_pyint_exact [OF q refl lim]
  obtain y where y: "float_of_pyint (q * 2 ^ k) = Inr y"
    and v: "float_value y = Some (real_of_int (q * 2 ^ k))"
    by blast
  have "0 < q * 2 ^ k" using q by simp
  from float_of_pyint_pos [OF this y] have pos: "float_gt_zero y" .
  from y have "py_float (PInt (q * 2 ^ k)) = Inr y" by (simp add: py_float_def)
  from set_timeout_value_gt_zero [OF this pos] v
  show "\<exists>y. float_value y = Some (real_of_int (q * 2 ^ k)) \<and>
         set_timeout_value (PInt (q * 2 ^ k)) self = (Inr (), self\<lparr>timeout := Some y\<rparr>)"
    by blast
next
  assume "2 ^ 1024 \<le> n"
  then have "2 ^ 1024 \<le> \<bar>n\<bar>" by simp
  from float_of_pyint_overflow [OF this]
  show "set_timeout_value (PInt n) self = (Inl OverflowError, self)"
    by (simp add: set_timeout_value_def py_float_def)
next
  assume "float_eq_zero z"
  then show "set_timeout_value (PFloat z) self = (Inr (), self\<lparr>timeout := None\<rparr>)"
    by (simp add: set_timeout_value_eq_zero py_float_def)
next
  show "set_timeout_value (PInt 0) self = (Inr (), self\<lparr>timeout := None\<rparr>)"
    by (simp add: set_timeout_value_eq_zero py_float_def float_of_pyint_def float_eq_zero_def)
qed

theorem set_timeout_value_positive_or_zero_witness:
  "float_gt_zero 0x4004000000000000 \<and>
   set_timeout_value (PFloat 0x4004000000000000) init
     = (Inr (), init\<lparr>timeout := Some 0x4004000000000000\<rparr>) \<and>
   (0::int) < 15 \<and> (15::int) < 2 ^ 53 \<and> (15::int) * 2 ^ 1 < 2 ^ 1024 \<and>
   (\<exists>y. float_value y = Some (real_of_int (15 * 2 ^ 1)) \<and>
      set_timeout_value (PInt (15 * 2 ^ 1)) init = (Inr (), init\<lparr>timeout := Some y\<rparr>)) \<and>
   float_value 0x403E000000000000 = Some 30 \<and>
   set_timeout_value (PInt 30) init = (Inr (), init\<lparr>timeout := Some 0x403E000000000000\<rparr>) \<and>
   (2::int) ^ 1024 \<le> 2 ^ 1024 \<and>
   set_timeout_value (PInt (2 ^ 1024)) (init\<lparr>timeout := Some 0x4014000000000000\<rparr>)
     = (Inl OverflowError, init\<lparr>timeout := Some 0x4014000000000000\<rparr>) \<and>
   float_eq_zero 0x8000000000000000 \<and>
   set_timeout_value (PFloat 0x8000000000000000) (init\<lparr>timeout := Some 0x4014000000000000\<rparr>)
     = (Inr (), init\<lparr>timeout := Some 0x4014000000000000, timeout := None\<rparr>)"
proof -
  have pos: "float_gt_zero 0x4004000000000000"
    by (simp add: float_gt_zero_def)
  have zero: "float_eq_zero 0x8000000000000000"
    by (simp add: float_eq_zero_def)
  have r1: "(0::int) < 15" and r2: "(15::int) < 2 ^ 53" and r3: "(15::int) * 2 ^ 1 < 2 ^ 1024"
    by simp_all
  have big: "(2::int) ^ 1024 \<le> 2 ^ 1024"
    by simp
  have val: "float_value 0x403E000000000000 = Some 30"
    by (simp add: float_value_def magnitude_def)
  have conv: "float_of_pyint 30 = Inr 0x403E000000000000"
    by code_simp
  have thirty: "set_timeout_value (PInt 30) init
     = (Inr (), init\<lparr>timeout := Some 0x403E000000000000\<rparr>)"
    using conv
    by (simp add: set_timeout_value_def py_float_def float_eq_zero_def float_lt_zero_def)
  note fresh = set_timeout_value_positive_or_zero
      [where x = "0x4004000000000000" and self = init and q = 15 and k = 1]
  note used = set_timeout_value_positive_or_zero
      [where self = "init\<lparr>timeout := Some 0x4014000000000000\<rparr>" and n = "2 ^ 1024"
         and z = "0x8000000000000000"]
  have a: "set_timeout_value (PFloat 0x4004000000000000) init
     = (Inr (), init\<lparr>timeout := Some 0x4004000000000000\<rparr>)"
    by (rule fresh [THEN conjunct1, rule_format, OF pos])
  note b = fresh [THEN conjunct2, THEN conjunct1, rule_format, OF conjI [OF r1 conjI [OF r2 r3]]]
  have c: "set_timeout_value (PInt (2 ^ 1024)) (init\<lparr>timeout := Some 0x4014000000000000\<rparr>)
     = (Inl OverflowError, init\<lparr>timeout := Some 0x4014000000000000\<rparr>)"
    by (rule used [THEN conjunct2, THEN conjunct2, THEN conjunct1, rule_format, OF big])
  have d: "set_timeout_value (PFloat 0x8000000000000000)
       (init\<lparr>timeout := Some 0x4014000000000000\<rparr>)
     = (Inr (), init\<lparr>timeout := Some 0x4014000000000000, timeout := None\<rparr>)"
    by (rule used [THEN conjunct2, THEN conjunct2, THEN conjunct2, THEN conjunct1,
          rule_format, OF zero])
  show ?thesis by (intro conjI pos a r1 r2 r3 b val thirty big c zero d)
qed

text \<open>
  C9. For every delay that stands for \<open>d > 0\<close> seconds, \<^verbatim>\<open>query\<close> calls \<^verbatim>\<open>write\<close>,
  then \<^verbatim>\<open>time.sleep(delay)\<close> in the state \<^verbatim>\<open>write\<close> left, then \<^verbatim>\<open>read\<close> in the
  state \<^verbatim>\<open>time.sleep\<close> left. Given that \<^verbatim>\<open>time.sleep(delay)\<close> never returns before
  \<open>d\<close> seconds have passed on the clock, \<^verbatim>\<open>read\<close> starts in a state at least \<open>d\<close>
  seconds later than the one in which \<^verbatim>\<open>write\<close> ended; when \<^verbatim>\<open>write\<close> or
  \<^verbatim>\<open>time.sleep\<close> raises, \<^verbatim>\<open>read\<close> is not called at all.
\<close>

theorem query_delay_gap:
  assumes secs: "seconds delay = Some d" and pos: "0 < d"
    and contract: "\<forall>v v'. sleep delay v = (Inr (), v') \<longrightarrow> clock v + d \<le> clock v'"
  shows
    "(write message w = (Inl e, w1) \<longrightarrow>
        query write read sleep message delay sz w = (Inl e, w1)) \<and>
     (write message w = (Inr n, w1) \<and> sleep delay w1 = (Inl e, w2) \<longrightarrow>
        query write read sleep message delay sz w = (Inl e, w2)) \<and>
     (write message w = (Inr n, w1) \<and> sleep delay w1 = (Inr (), w2) \<longrightarrow>
        clock w1 + d \<le> clock w2 \<and>
        query write read sleep message delay sz w = read sz w2)"
proof -
  from seconds_pos_gt_zero [OF secs pos] have gt: "py_gt_zero delay = Inr True" .
  show ?thesis
    using contract by (auto simp add: query_positive_delay [OF gt])
qed


theorem query_delay_gap_witness:
  "seconds (PFloat 0x4004000000000000) = Some (5 / 2) \<and> (0::real) < 5 / 2 \<and>
   example_write False ''*IDN?'' [] = (Inl IOError, [WriteCalled ''*IDN?'']) \<and>
   query (example_write False) (example_read True) example_sleep ''*IDN?''
     (PFloat 0x4004000000000000) PNone []
     = (Inl IOError, [WriteCalled ''*IDN?'']) \<and>
   example_write True ''*IDN?'' [] = (Inr 5, [WriteCalled ''*IDN?'']) \<and>
   overflowing_sleep (PFloat 0x4004000000000000) [WriteCalled ''*IDN?'']
     = (Inl OverflowError, [WriteCalled ''*IDN?'', SleepCalled (PFloat 0x4004000000000000)]) \<and>
   query (example_write True) (example_read True) overflowing_sleep ''*IDN?''
     (PFloat 0x4004000000000000) PNone []
     = (Inl OverflowError, [WriteCalled ''*IDN?'', SleepCalled (PFloat 0x4004000000000000)]) \<and>
   example_sleep (PFloat 0x4004000000000000) [WriteCalled ''*IDN?'']
     = (Inr (), [WriteCalled ''*IDN?'', SleepCalled (PFloat 0x4004000000000000)]) \<and>
   elapsed [WriteCalled ''*IDN?''] + 5 / 2
     \<le> elapsed [WriteCalled ''*IDN?'', SleepCalled (PFloat 0x4004000000000000)] \<and>
   query (example_write True) (example_read True) example_sleep ''*IDN?''
     (PFloat 0x4004000000000000) PNone []
     = example_read True PNone
         [WriteCalled ''*IDN?'', SleepCalled (PFloat 0x4004000000000000)]"
proof -
  have secs: "seconds (PFloat 0x4004000000000000) = Some (5 / 2)"
    by (simp add: float_value_def magnitude_def)
  have pos: "(0::real) < 5 / 2"
    by simp
  have sleeps: "\<forall>v v'. example_sleep (PFloat 0x4004000000000000) v = (Inr (), v') \<longrightarrow>
      elapsed v + 5 / 2 \<le> elapsed v'"
    using secs by (auto simp add: example_sleep_def elapsed_append)
  have raises: "\<forall>v v'. overflowing_sleep (PFloat 0x4004000000000000) v = (Inr (), v') \<longrightarrow>
      elapsed v + 5 / 2 \<le> elapsed v'"
    by (simp add: overflowing_sleep_def)
  have w0: "example_write False ''*IDN?'' [] = (Inl IOError, [WriteCalled ''*IDN?''])"
    by (simp add: example_write_def)
  have w1: "example_write True ''*IDN?'' [] = (Inr 5, [WriteCalled ''*IDN?''])"
    by (simp add: example_write_def)
  have s0: "overflowing_sleep (PFloat 0x4004000000000000) [WriteCalled ''*IDN?'']
     = (Inl OverflowError, [WriteCalled ''*IDN?'', SleepCalled (PFloat 0x4004000000000000)])"
    by (simp add: overflowing_sleep_def)
  have s1: "example_sleep (PFloat 0x4004000000000000) [WriteCalled ''*IDN?'']
     = (Inr (), [WriteCalled ''*IDN?'', SleepCalled (PFloat 0x4004000000000000)])"
    by (simp add: example_sleep_def)
  note fails = query_delay_gap [of "PFloat 0x4004000000000000" "5 / 2" example_sleep elapsed
      "example_write False" "''*IDN?''" "[]" _ _ "example_read True" PNone, OF secs pos sleeps]
  note raised = query_delay_gap [of "PFloat 0x4004000000000000" "5 / 2" overflowing_sleep
      elapsed "example_write True" "''*IDN?''" "[]" _ _ "example_read True" PNone,
      OF secs pos raises]
  note slept = query_delay_gap [of "PFloat 0x4004000000000000" "5 / 2" example_sleep elapsed
      "example_write True" "''*IDN?''" "[]" _ _ "example_read True" PNone, OF secs pos sleeps]
  note a = fails [THEN conjunct1, rule_format, OF w0]
  note b = raised [THEN conjunct2, THEN conjunct1, rule_format, OF conjI [OF w1 s0]]
  note c = slept [THEN conjunct2, THEN conjunct2, rule_format, OF conjI [OF w1 s1]]
  show ?thesis
    by (intro conjI secs pos w0 a w1 s0 b s1 c [THEN conjunct1] c [THEN conjunct2])
qed

text \<open>
  C10. A bool is an int for the \<^verbatim>\<open>max_read_size\<close> setter: \<^verbatim>\<open>True\<close> is accepted and
  stores the limit 1, \<^verbatim>\<open>False\<close> is rejected with \<^verbatim>\<open>ValueError\<close> as the int 0 is,
  and for neither does the \<^verbatim>\<open>isinstance\<close> test fail.
\<close>

theorem max_read_size_setter_bool:
  "max_read_size_setter (PBool True) self = (Inr (), self\<lparr>max_read_size := 1\<rparr>) \<and>
   max_read_size_setter (PBool False) self = (Inl ValueError, self) \<and>
   isinstance_int (PBool b) \<and>
   max_read_size_setter (PBool b) self
     = max_read_size_setter (PInt (if b then 1 else 0)) self"
  by (simp add: max_read_size_setter_def isinstance_int_def)

end
